theory Spec2Isabelle
  imports Complex_Main "HOL-Library.Sublist"
begin

section \<open>Batch subtitle burner: job state, encoder choice and the run loop\<close>

text \<open>
  A shallow embedding of \<^verbatim>\<open>batchburn_main.py\<close>. File names, paths and encoder
  identifiers are strings; Python lists are HOL lists; the per-folder state file
  \<^verbatim>\<open>burn_state.json\<close> is a record of its two keys, each of which may be missing;
  an exception is the \<open>Inl\<close> side of a sum.
\<close>

subsection \<open>Strings\<close>

text \<open>\<^verbatim>\<open>needle in hay\<close> on Python strings: \<open>needle\<close> occurs as a contiguous piece.\<close>

fun contains :: "string \<Rightarrow> string \<Rightarrow> bool" where
  "contains needle [] = (needle = [])"
| "contains needle (c # cs) = (prefix needle (c # cs) \<or> contains needle cs)"

text \<open>\<^verbatim>\<open>s.endswith(suf)\<close>.\<close>

definition endswith :: "string \<Rightarrow> string \<Rightarrow> bool" where
  "endswith s suf = (length suf \<le> length s \<and> drop (length s - length suf) s = suf)"

text \<open>\<^verbatim>\<open>ord(c)\<close>, and \<^verbatim>\<open>s.lower()\<close> on the ASCII letters.\<close>

definition ord :: "char \<Rightarrow> nat" where
  "ord c = of_char c"

definition lower_char :: "char \<Rightarrow> char" where
  "lower_char c = (if 65 \<le> ord c \<and> ord c \<le> 90 then char_of (ord c + 32) else c)"

definition lower :: "string \<Rightarrow> string" where
  "lower s = map lower_char s"

text \<open>
  \<^verbatim>\<open>s.strip()\<close>: the white space Python removes from both ends of an ASCII string is
  the space, the characters 9 to 13 and the separators 28 to 31.
\<close>

definition is_space :: "char \<Rightarrow> bool" where
  "is_space c = (ord c = 32 \<or> (9 \<le> ord c \<and> ord c \<le> 13) \<or> (28 \<le> ord c \<and> ord c \<le> 31))"

definition strip :: "string \<Rightarrow> string" where
  "strip s = rev (dropWhile is_space (rev (dropWhile is_space s)))"

text \<open>
  \<^verbatim>\<open>s.split(":")[1]\<close>: the text between the first and the second colon; an
  \<^verbatim>\<open>IndexError\<close> (here \<open>None\<close>) when \<open>s\<close> has no colon. Every caller catches the
  exception and carries on with \<^verbatim>\<open>None\<close>.
\<close>

definition split_idx :: "string \<Rightarrow> string option" where
  "split_idx s =
     (case dropWhile (\<lambda>c. c \<noteq> CHR '':'') s of
        [] \<Rightarrow> None
      | _ # rest \<Rightarrow> Some (takeWhile (\<lambda>c. c \<noteq> CHR '':'') rest))"

text \<open>\<^verbatim>\<open>os.path.join(folder, name)\<close> for a relative \<open>name\<close>, with the POSIX separator.\<close>

definition path_join :: "string \<Rightarrow> string \<Rightarrow> string" where
  "path_join folder name =
     (if folder = [] \<or> last folder = CHR ''/'' then folder @ name
      else folder @ ''/'' @ name)"

text \<open>
  \<^verbatim>\<open>os.path.splitext(f)[0]\<close> for a bare file name: everything before the last dot,
  unless only dots precede it.
\<close>

definition splitext_stem :: "string \<Rightarrow> string" where
  "splitext_stem f =
     (let ext = takeWhile (\<lambda>c. c \<noteq> CHR ''.'') (rev f);
          stem = rev (drop (Suc (length ext)) (rev f))
      in if length ext = length f \<or> filter (\<lambda>c. c \<noteq> CHR ''.'') stem = [] then f else stem)"

subsection \<open>Encoder choice\<close>

text \<open>
  The argument of \<^verbatim>\<open>pick_best_encoder\<close> is the list of encoders whose trial
  encode succeeded (\<^verbatim>\<open>getallmyencoders\<close>) or, when that raised, the text printed
  by \<^verbatim>\<open>ffmpeg -encoders\<close>; \<^verbatim>\<open>name in encoders\<close> is membership for the one
  and occurrence for the other.
\<close>

datatype encoders = EncList "string list" | EncText string

fun has_encoder :: "string \<Rightarrow> encoders \<Rightarrow> bool" where
  "has_encoder name (EncList xs) = (name \<in> set xs)"
| "has_encoder name (EncText t) = contains name t"

text \<open>\<^verbatim>\<open>pick_best_encoder\<close>; the result is \<^verbatim>\<open>[bestav1, best_hevc, best264]\<close>.\<close>

definition pick_best_encoder :: "encoders \<Rightarrow> string \<times> string \<times> string" where
  "pick_best_encoder encoders =
     (let best_hevc =
            (if has_encoder ''hevc_nvenc'' encoders then ''hevc_nvenc''
             else if has_encoder ''hevc_qsv'' encoders then ''hevc_qsv''
             else if has_encoder ''hevc_amf'' encoders then ''hevc_amf''
             else ''libx265'');
          best264 =
            (if has_encoder ''h264_nvenc'' encoders then ''h264_nvenc''
             else if has_encoder ''h264_qsv'' encoders then ''h264_qsv''
             else if has_encoder ''h264_amf'' encoders then ''h264_amf''
             else ''libx264'');
          bestav1 =
            (if has_encoder ''av1_nvenc'' encoders then ''av1_nvenc''
             else if has_encoder ''av1_qsv'' encoders then ''av1_qsv''
             else if has_encoder ''av1_amf'' encoders then ''av1_amf''
             else ''libxav1'')
      in (bestav1, best_hevc, best264))"

text \<open>
  The preference order in the words of the specification, for one codec family:
  NVENC, then QSV, then AMF, then the software encoder, decided by the set of
  available encoders alone.
\<close>

definition prefer_order :: "string set \<Rightarrow> string \<Rightarrow> string \<Rightarrow> string \<Rightarrow> string \<Rightarrow> string" where
  "prefer_order avail nvenc qsv amf software =
     (if nvenc \<in> avail then nvenc else if qsv \<in> avail then qsv
      else if amf \<in> avail then amf else software)"

subsection \<open>Bit-depth probe\<close>

text \<open>
  \<^verbatim>\<open>is_10bit\<close>, as a function of what \<^verbatim>\<open>ffprobe\<close> printed for the
  \<^verbatim>\<open>pix_fmt\<close> entry of stream \<^verbatim>\<open>v:0\<close>.
\<close>

definition is_10bit :: "string \<Rightarrow> bool" where
  "is_10bit stdout = (let pix_fmt = strip stdout in contains ''10'' pix_fmt)"

subsection \<open>The per-folder state file\<close>

datatype py_error = KeyError

record jstate =
  finished :: "string list option"
  pending :: "string list option"

text \<open>
  \<^verbatim>\<open>mark_done(folder, f)\<close> on the content of the folder's state file (\<open>None\<close>: the
  file does not exist). \<open>Inr\<close> carries what is written back; on \<open>Inl\<close> nothing is
  written. \<^verbatim>\<open>state["finished"]\<close> raises when the key is missing, and
  \<^verbatim>\<open>list.remove\<close> takes out the first occurrence only.
\<close>

definition mark_done :: "jstate option \<Rightarrow> string \<Rightarrow> py_error + jstate" where
  "mark_done file f =
     (let state = (case file of
                     Some s \<Rightarrow> s
                   | None \<Rightarrow> \<lparr>finished = Some [], pending = Some []\<rparr>)
      in case finished state of
           None \<Rightarrow> Inl KeyError
         | Some fin \<Rightarrow>
             (let fin' = (if f \<notin> set fin then fin @ [f] else fin)
              in case pending state of
                   None \<Rightarrow> Inl KeyError
                 | Some pen \<Rightarrow>
                     Inr \<lparr>finished = Some fin',
                          pending = Some (if f \<in> set pen then remove1 f pen else pen)\<rparr>))"

subsection \<open>Scanning one directory\<close>

definition video_exts :: "string list" where
  "video_exts = [''.mkv'', ''.mp4'', ''.avi'', ''.mov'', ''.m4v'', ''.webm'']"

definition is_video :: "string \<Rightarrow> bool" where
  "is_video f = (\<exists>e \<in> set video_exts. endswith (lower f) e)"

definition is_jpn :: "string \<Rightarrow> bool" where
  "is_jpn s = (contains ''(jpn)'' (lower s) \<or> contains ''jpn'' (lower s)
               \<or> contains ''japanese'' (lower s))"

text \<open>The automatic choice of a track: the first Japanese one, else the first one.\<close>

definition auto_select :: "string list \<Rightarrow> string" where
  "auto_select tracks =
     (if tracks = [] then []
      else case filter is_jpn tracks of [] \<Rightarrow> hd tracks | j # _ \<Rightarrow> j)"

text \<open>The entry \<^verbatim>\<open>folders[dirpath]\<close>, without its widgets and its byte count.\<close>

record folder_data =
  files :: "string list"
  done_list :: "string list"
  subs :: "string list"
  audios :: "string list"
  selected_sub :: string
  selected_audio :: string
  video_count :: nat

text \<open>
  The body of the loop of \<^verbatim>\<open>scan_folders\<close> for one directory: \<open>names\<close> is the
  directory listing, \<open>file\<close> the content of its state file, \<open>streams\<close> what
  \<^verbatim>\<open>get_streams\<close> returns for the first video. The result is \<open>None\<close> for a
  directory without videos (\<^verbatim>\<open>continue\<close>, nothing written), else the state that is
  written to the state file and the entry added to \<^verbatim>\<open>folders\<close>.
  In the branch of an existing state file the variable \<^verbatim>\<open>state\<close> is the one
  read from the file: the recomputed \<^verbatim>\<open>pending\<close> is not stored in it.
\<close>

definition scan_dir ::
  "string list \<Rightarrow> jstate option \<Rightarrow> string list \<times> string list \<Rightarrow> (jstate \<times> folder_data) option"
where
  "scan_dir names file streams =
     (let direct_videos = filter is_video names
      in if direct_videos = [] then None
         else
           (let (dn, pend, state) =
                  (case file of
                     Some st \<Rightarrow>
                       (let dn = (case finished st of Some d \<Rightarrow> d | None \<Rightarrow> []);
                            pend = (case pending st of Some p \<Rightarrow> p | None \<Rightarrow> []);
                            pend = (if pend = [] then filter (\<lambda>f. f \<notin> set dn) direct_videos
                                    else pend)
                        in (dn, pend, st))
                   | None \<Rightarrow>
                       ([], direct_videos,
                        \<lparr>finished = Some [], pending = Some direct_videos\<rparr>))
            in Some (state,
                 \<lparr>files = pend, done_list = dn,
                  subs = fst streams, audios = snd streams,
                  selected_sub = auto_select (fst streams),
                  selected_audio = auto_select (snd streams),
                  video_count = length direct_videos\<rparr>)))"

subsection \<open>The run loop\<close>

text \<open>
  What \<^verbatim>\<open>subprocess.run\<close> does when called without \<^verbatim>\<open>check\<close> and without
  \<^verbatim>\<open>timeout\<close>, as the extraction and the burn call it: it returns the exit code
  and the output of the process, whatever the exit code, or raises when the process
  cannot be started (the text is the exception's).
\<close>

datatype proc = Exited int string | Raised string

text \<open>
  What the outside world answers for one file: the random name of the subtitle file,
  the output of the pixel-format probe (\<open>None\<close> when \<^verbatim>\<open>is_10bit\<close> raises), the
  outcome of the extraction command and whether the subtitle file is on disk after it,
  and the outcome of the burn command.
\<close>

record file_env =
  fe_subname :: string
  fe_probe :: "string option"
  fe_extract :: "string list \<Rightarrow> proc"
  fe_sidecar :: bool
  fe_burn :: "string list \<Rightarrow> proc"

text \<open>
  The state a run acts on: the state file of each folder, the paths on disk, and what
  the run emits: the log, the burn commands, the calls of \<^verbatim>\<open>mark_done\<close>, the calls
  of \<^verbatim>\<open>ui_set_progress\<close> and of \<^verbatim>\<open>ui_set_global_progress\<close>, the message boxes,
  and the counter \<^verbatim>\<open>completed_tasks\<close>. Percentages are exact rationals.
\<close>

record world =
  state_files :: "string \<Rightarrow> jstate option"
  disk :: "string set"
  log_lines :: "string list"
  burn_cmds :: "string list list"
  mark_calls :: "(string \<times> string) list"
  folder_events :: "(string \<times> rat) list"
  global_events :: "rat list"
  boxes :: "string list"
  completed_tasks :: nat

definition log :: "string \<Rightarrow> world \<Rightarrow> world" where
  "log message w = w\<lparr>log_lines := log_lines w @ [message]\<rparr>"

text \<open>\<^verbatim>\<open>if os.path.exists(p): os.remove(p)\<close>.\<close>

definition remove_if_exists :: "string \<Rightarrow> world \<Rightarrow> world" where
  "remove_if_exists p w = (if p \<in> disk w then w\<lparr>disk := disk w - {p}\<rparr> else w)"

text \<open>\<^verbatim>\<open>sub_idx is not None and sub_idx != ""\<close>.\<close>

definition given :: "string option \<Rightarrow> bool" where
  "given idx = (case idx of None \<Rightarrow> False | Some i \<Rightarrow> i \<noteq> [])"

definition extract_command :: "string \<Rightarrow> string \<Rightarrow> string \<Rightarrow> string list" where
  "extract_command input_f sub_idx subtitle_file =
     [''ffmpeg'', ''-y'', ''-i'', input_f, ''-map'', ''0:'' @ sub_idx, subtitle_file]"

definition burn_command ::
  "string \<Rightarrow> string option \<Rightarrow> string \<Rightarrow> string \<Rightarrow> string \<Rightarrow> string list"
where
  "burn_command input_f aud_idx vf_option chosen_encoder output_f =
     [''ffmpeg'', ''-y'', ''-hwaccel'', ''auto'', ''-i'', input_f]
     @ [''-map'', ''0:v:0'']
     @ (if given aud_idx then [''-map'', ''0:'' @ the aud_idx] else [''-map'', ''0:a?''])
     @ (if vf_option \<noteq> [] then [''-vf'', vf_option] else [])
     @ [''-c:v'', chosen_encoder, ''-c:a'', ''copy'', output_f]"

text \<open>
  The subtitle step of the loop body: it returns the new \<^verbatim>\<open>sub_idx\<close> and
  \<^verbatim>\<open>vf_option\<close>. After the extraction command the subtitle file is on disk or not,
  as the outside world says.
\<close>

definition extract_step ::
  "file_env \<Rightarrow> string \<Rightarrow> string \<Rightarrow> string \<Rightarrow> string option \<Rightarrow> string \<Rightarrow> world
   \<Rightarrow> string option \<times> string \<times> world"
where
  "extract_step env f input_f subtitle_file sub_idx vf_option w =
     (if given sub_idx then
        (let extract_cmd = extract_command input_f (the sub_idx) subtitle_file;
             w1 = (if fe_sidecar env then w\<lparr>disk := insert subtitle_file (disk w)\<rparr> else w)
         in case fe_extract env extract_cmd of
              Exited rc out \<Rightarrow> (sub_idx, vf_option, log out w1)
            | Raised e \<Rightarrow>
                (None, [],
                 remove_if_exists subtitle_file
                   (log (''Failed to extract subtitle for '' @ f @ '': '' @ e) w1)))
      else (sub_idx, [], w))"

text \<open>
  The \<^verbatim>\<open>try\<close> block around the burn: the command runs; when
  \<^verbatim>\<open>subprocess.run\<close> returns, the subtitle file is removed and \<^verbatim>\<open>mark_done\<close>
  is called; an exception of either is logged.
\<close>

definition burn_step ::
  "file_env \<Rightarrow> string \<Rightarrow> string \<Rightarrow> string \<Rightarrow> string option \<Rightarrow> string list \<Rightarrow> world \<Rightarrow> world"
where
  "burn_step env folder f subtitle_file sub_idx burn_cmd w =
     (let w1 = w\<lparr>burn_cmds := burn_cmds w @ [burn_cmd]\<rparr>
      in case fe_burn env burn_cmd of
           Exited rc out \<Rightarrow>
             (let w2 = log out w1;
                  w3 = (if sub_idx \<noteq> None then remove_if_exists subtitle_file w2 else w2);
                  w4 = w3\<lparr>mark_calls := mark_calls w3 @ [(folder, f)]\<rparr>
              in case mark_done (state_files w4 folder) f of
                   Inr s \<Rightarrow> w4\<lparr>state_files := (state_files w4)(folder := Some s)\<rparr>
                 | Inl e \<Rightarrow> log (''Error burning '' @ f @ '': KeyError'') w4)
         | Raised e \<Rightarrow> log (''Error burning '' @ f @ '': '' @ e) w1)"

text \<open>\<^verbatim>\<open>is_10bit(input_f)\<close> inside its \<^verbatim>\<open>try\<close>: an exception counts as 8-bit.\<close>

definition probed_10bit :: "file_env \<Rightarrow> bool" where
  "probed_10bit env = (case fe_probe env of Some out \<Rightarrow> is_10bit out | None \<Rightarrow> False)"

text \<open>The body of the loop over the files of a folder, up to the progress update.\<close>

definition process_file ::
  "string \<Rightarrow> string \<Rightarrow> string \<Rightarrow> folder_data \<Rightarrow> string \<Rightarrow> file_env \<Rightarrow> world \<Rightarrow> world"
where
  "process_file best265 best264 folder data f env w =
     (let outfolder = folder @ ''-burned'';
          input_f = path_join folder f;
          output_f = path_join outfolder (splitext_stem f @ ''-burned.mp4'');
          subname = fe_subname env;
          subtitle_file = path_join folder subname;
          sub_idx = split_idx (selected_sub data);
          aud_idx = split_idx (selected_audio data);
          input_is_10bit = probed_10bit env;
          w1 = (if input_is_10bit then log (''Detected 10-bit input for: '' @ f) w
                else log (''Detected 8-bit input for: '' @ f) w);
          chosen_encoder = (if input_is_10bit then best265 else best264);
          vf_option = (if input_is_10bit then ''subtitles='' @ subname
                       else ''format=yuv420p,subtitles='' @ subname);
          (sub_idx, vf_option, w2) =
            extract_step env f input_f subtitle_file sub_idx vf_option w1;
          burn_cmd = burn_command input_f aud_idx vf_option chosen_encoder output_f
      in burn_step env folder f subtitle_file sub_idx burn_cmd w2)"


definition global_percent :: "nat \<Rightarrow> nat \<Rightarrow> rat" where
  "global_percent completed total_tasks =
     (if total_tasks \<noteq> 0 then (of_nat completed / of_nat total_tasks) * 100 else 100)"





subsection \<open>States of the state file that the program reaches\<close>

text \<open>
  The contents of one folder's state file that arise from no file at all by the
  program's own writes: a scan of the directory (whose listing has no name twice) and
  \<^verbatim>\<open>mark_done\<close> for any file name.
\<close>

inductive reachable :: "jstate option \<Rightarrow> bool" where
  fresh: "reachable None"
| scanned: "reachable file \<Longrightarrow> distinct names \<Longrightarrow> scan_dir names file streams = Some (st, d)
            \<Longrightarrow> reachable (Some st)"
| marked: "reachable file \<Longrightarrow> mark_done file f = Inr st \<Longrightarrow> reachable (Some st)"

text \<open>
  A state file is in order when it has both keys and no file name is in both lists;
  no state file at all is in order.
\<close>

definition disjoint_state :: "jstate option \<Rightarrow> bool" where
  "disjoint_state file =
     (case file of
        None \<Rightarrow> True
      | Some st \<Rightarrow>
          (case (finished st, pending st) of
             (Some fin, Some pen) \<Rightarrow> set fin \<inter> set pen = {}
           | _ \<Rightarrow> False))"

subsection \<open>Reading a run\<close>

text \<open>
  Names for what the theorems say about one file: the extraction command raised (which
  needs a subtitle index to be given), the subtitle filter is used (an index is given and
  the extraction did not raise), and the burn command that a file gets.
\<close>

definition raised :: "proc \<Rightarrow> bool" where
  "raised p = (case p of Raised e \<Rightarrow> True | Exited rc out \<Rightarrow> False)"

definition extraction_raises :: "string \<Rightarrow> folder_data \<Rightarrow> string \<Rightarrow> file_env \<Rightarrow> bool" where
  "extraction_raises folder data f env =
     (given (split_idx (selected_sub data))
      \<and> raised (fe_extract env
            (extract_command (path_join folder f) (the (split_idx (selected_sub data)))
               (path_join folder (fe_subname env)))))"

definition burns_subtitles :: "string \<Rightarrow> folder_data \<Rightarrow> string \<Rightarrow> file_env \<Rightarrow> bool" where
  "burns_subtitles folder data f env =
     (given (split_idx (selected_sub data)) \<and> \<not> extraction_raises folder data f env)"

definition expected_burn_cmd ::
  "string \<Rightarrow> string \<Rightarrow> string \<Rightarrow> folder_data \<Rightarrow> string \<Rightarrow> file_env \<Rightarrow> string list" where
  "expected_burn_cmd best265 best264 folder data f env =
     burn_command (path_join folder f) (split_idx (selected_audio data))
       (if burns_subtitles folder data f env then
          (if probed_10bit env then ''subtitles='' @ fe_subname env
           else ''format=yuv420p,subtitles='' @ fe_subname env)
        else [])
       (if probed_10bit env then best265 else best264)
       (path_join (folder @ ''-burned'') (splitext_stem f @ ''-burned.mp4''))"

text \<open>
  The state before anything has happened: no state file, no subtitle file, nothing
  emitted.
\<close>

definition empty_world :: world where
  "empty_world = \<lparr>state_files = (\<lambda>folder. None), disk = {}, log_lines = [], burn_cmds = [],
                    mark_calls = [], folder_events = [], global_events = [], boxes = [],
                    completed_tasks = 0\<rparr>"

section \<open>Properties\<close>

subsection \<open>Strings\<close>

lemma contains_sublist: "contains n h = sublist n h"
  by (induction h) (auto simp: sublist_Cons_right)

lemma sublist_dropWhile:
  assumes "n \<noteq> []" "P (hd n) = False"
  shows "sublist n (dropWhile P s) = sublist n s"
proof (induction s)
  case Nil thus ?case by simp
next
  case (Cons c cs)
  show ?case
  proof (cases "P c")
    case True
    with assms have "\<not> prefix n (c # cs)" by (cases n) auto
    with True Cons show ?thesis by (simp add: sublist_Cons_right)
  next
    case False thus ?thesis by simp
  qed
qed

lemma not_space_digit: "is_space CHR ''1'' = False" "is_space CHR ''0'' = False"
  by (simp_all add: is_space_def ord_def)

lemma contains_10_strip: "contains ''10'' (strip s) = contains ''10'' s"
proof -
  have "sublist ''10'' (strip s) = sublist (rev ''10'') (dropWhile is_space (rev (dropWhile is_space s)))"
    unfolding strip_def by (subst sublist_rev[symmetric]) simp
  also have "\<dots> = sublist (rev ''10'') (rev (dropWhile is_space s))"
    by (rule sublist_dropWhile) (simp_all add: not_space_digit)
  also have "\<dots> = sublist ''10'' (dropWhile is_space s)"
    by (subst sublist_rev[symmetric]) simp
  also have "\<dots> = sublist ''10'' s"
    by (rule sublist_dropWhile) (simp_all add: not_space_digit)
  finally show ?thesis by (simp add: contains_sublist)
qed

subsection \<open>Scanning and the state file\<close>

lemma scan_dir_existing:
  "filter is_video names \<noteq> [] \<Longrightarrow>
   scan_dir names (Some st) streams =
     Some (st, \<lparr>files = (if (case pending st of Some p \<Rightarrow> p | None \<Rightarrow> []) = []
                          then filter (\<lambda>f. f \<notin> set (case finished st of Some d \<Rightarrow> d | None \<Rightarrow> []))
                                 (filter is_video names)
                          else (case pending st of Some p \<Rightarrow> p | None \<Rightarrow> [])),
                 done_list = (case finished st of Some d \<Rightarrow> d | None \<Rightarrow> []),
                 subs = fst streams, audios = snd streams,
                 selected_sub = auto_select (fst streams),
                 selected_audio = auto_select (snd streams),
                 video_count = length (filter is_video names)\<rparr>)"
  by (simp add: scan_dir_def Let_def)

lemma scan_dir_absent:
  "filter is_video names \<noteq> [] \<Longrightarrow>
   scan_dir names None streams =
     Some (\<lparr>finished = Some [], pending = Some (filter is_video names)\<rparr>,
           \<lparr>files = filter is_video names, done_list = [],
            subs = fst streams, audios = snd streams,
            selected_sub = auto_select (fst streams),
            selected_audio = auto_select (snd streams),
            video_count = length (filter is_video names)\<rparr>)"
  by (simp add: scan_dir_def Let_def)

lemma scan_dir_no_videos: "filter is_video names = [] \<Longrightarrow> scan_dir names file streams = None"
  by (simp add: scan_dir_def)

lemma is_video_abc: "is_video ''a.mkv''" "is_video ''b.mkv''" "is_video ''c.mkv''"
  by (simp_all add: is_video_def video_exts_def endswith_def lower_def lower_char_def ord_def)

text \<open>
  Claim C2, evaluated on the code: the directory holds the videos \<^verbatim>\<open>a.mkv\<close>,
  \<^verbatim>\<open>b.mkv\<close>, \<^verbatim>\<open>c.mkv\<close> and the state file holds \<^verbatim>\<open>finished = [a.mkv]\<close>,
  \<^verbatim>\<open>pending = []\<close>. The scan writes the state back as it read it, with the
  empty \<^verbatim>\<open>pending\<close>; the recomputed list \<^verbatim>\<open>[b.mkv, c.mkv]\<close> only reaches the
  entry kept in memory.
\<close>

theorem scan_keeps_stale_pending:
  "map_option fst (scan_dir [''a.mkv'', ''b.mkv'', ''c.mkv'']
       (Some \<lparr>finished = Some [''a.mkv''], pending = Some []\<rparr>) streams)
     = Some \<lparr>finished = Some [''a.mkv''], pending = Some []\<rparr>
   \<and> map_option (files \<circ> snd) (scan_dir [''a.mkv'', ''b.mkv'', ''c.mkv'']
       (Some \<lparr>finished = Some [''a.mkv''], pending = Some []\<rparr>) streams)
     = Some [''b.mkv'', ''c.mkv'']"
  by (simp add: scan_dir_existing is_video_abc)

text \<open>
  Claim C3: a directory whose videos are exactly \<open>a\<close>, \<open>b\<close>, \<open>c\<close> and whose
  state file holds \<^verbatim>\<open>finished = [a]\<close> and \<^verbatim>\<open>pending = []\<close> is scanned into an
  entry whose pending files are \<open>{b, c}\<close> and whose finished files are \<open>{a}\<close>.
\<close>

theorem scan_reconciles_pending:
  assumes "set (filter is_video names) = {a, b, c}" and "a \<noteq> b" and "a \<noteq> c"
  shows "\<exists>st d. scan_dir names (Some \<lparr>finished = Some [a], pending = Some []\<rparr>) streams = Some (st, d)
           \<and> set (files d) = {b, c} \<and> set (done_list d) = {a} \<and> done_list d = [a]"
proof -
  from assms(1) have ne: "filter is_video names \<noteq> []"
    by (metis insert_not_empty set_empty)
  have "set (filter (\<lambda>f. f \<notin> set [a]) (filter is_video names)) = {b, c}"
    using assms by auto
  then show ?thesis
    by (simp add: scan_dir_existing[OF ne])
qed

theorem scan_reconciles_pending_witness:
  "set (filter is_video [''a.mkv'', ''b.mkv'', ''c.mkv'']) = {''a.mkv'', ''b.mkv'', ''c.mkv''}
   \<and> (\<exists>st d. scan_dir [''a.mkv'', ''b.mkv'', ''c.mkv'']
                 (Some \<lparr>finished = Some [''a.mkv''], pending = Some []\<rparr>) ([], []) = Some (st, d)
           \<and> set (files d) = {''b.mkv'', ''c.mkv''} \<and> set (done_list d) = {''a.mkv''}
           \<and> done_list d = [''a.mkv''])"
proof -
  have h: "set (filter is_video [''a.mkv'', ''b.mkv'', ''c.mkv'']) = {''a.mkv'', ''b.mkv'', ''c.mkv''}"
    by (simp add: is_video_abc)
  show ?thesis
    using h scan_reconciles_pending[OF h, of "([], [])"] by simp
qed

lemma mark_done_absent: "mark_done None f = Inr \<lparr>finished = Some [f], pending = Some []\<rparr>"
  by (simp add: mark_done_def)

lemma mark_done_present:
  "mark_done (Some \<lparr>finished = Some fin, pending = Some pen\<rparr>) f =
     Inr \<lparr>finished = Some (if f \<in> set fin then fin else fin @ [f]),
          pending = Some (remove1 f pen)\<rparr>"
  by (simp add: mark_done_def remove1_idem)





lemma reachable_inv:
  "reachable file \<Longrightarrow>
   file = None \<or> (\<exists>fin pen. file = Some \<lparr>finished = Some fin, pending = Some pen\<rparr>
                    \<and> distinct pen \<and> set fin \<inter> set pen = {})"
proof (induction rule: reachable.induct)
  case fresh
  show ?case by simp
next
  case (scanned fl names streams st d)
  from scanned.hyps(3) have ne: "filter is_video names \<noteq> []"
    by (auto simp: scan_dir_def split: if_splits)
  from scanned.IH show ?case
  proof
    assume "fl = None"
    with scanned.hyps(3) scanned.hyps(2) show ?thesis
      by (auto simp add: scan_dir_absent[OF ne])
  next
    assume "\<exists>fin pen. fl = Some \<lparr>finished = Some fin, pending = Some pen\<rparr>
              \<and> distinct pen \<and> set fin \<inter> set pen = {}"
    then obtain fin pen where f: "fl = Some \<lparr>finished = Some fin, pending = Some pen\<rparr>"
      and "distinct pen" "set fin \<inter> set pen = {}" by blast
    with scanned.hyps(3) show ?thesis
      by (auto simp add: scan_dir_existing[OF ne])
  qed
next
  case (marked fl f st)
  from marked.IH show ?case
  proof
    assume "fl = None"
    with marked.hyps(2) show ?thesis by (auto simp: mark_done_absent)
  next
    assume "\<exists>fin pen. fl = Some \<lparr>finished = Some fin, pending = Some pen\<rparr>
              \<and> distinct pen \<and> set fin \<inter> set pen = {}"
    then obtain fin pen where f: "fl = Some \<lparr>finished = Some fin, pending = Some pen\<rparr>"
      and d: "distinct pen" and dj: "set fin \<inter> set pen = {}" by blast
    from marked.hyps(2) f
    have st: "st = \<lparr>finished = Some (if f \<in> set fin then fin else fin @ [f]),
                    pending = Some (remove1 f pen)\<rparr>"
      by (simp add: mark_done_present)
    from d have "set (remove1 f pen) = set pen - {f}" by simp
    with dj d st show ?thesis by auto
  qed
qed

text \<open>
  Claim C5: in every state file that the program's own writes produce (a scan, a scan
  of an existing state file, any number of \<^verbatim>\<open>mark_done\<close> calls), \<^verbatim>\<open>finished\<close>
  and \<^verbatim>\<open>pending\<close> share no file name; the same holds for the entry that a scan of
  such a folder keeps in memory and for the state that a further \<^verbatim>\<open>mark_done\<close>
  writes, which does not raise.
\<close>

theorem finished_pending_disjoint:
  assumes "reachable file" and "distinct names"
  shows "disjoint_state file
         \<and> (case scan_dir names file streams of
              None \<Rightarrow> True
            | Some (st, d) \<Rightarrow> disjoint_state (Some st) \<and> set (done_list d) \<inter> set (files d) = {})
         \<and> (case mark_done file f of
              Inl e \<Rightarrow> False
            | Inr st \<Rightarrow> disjoint_state (Some st))"
proof -
  have a: "disjoint_state fl" if "reachable fl" for fl
    using reachable_inv[OF that] by (auto simp: disjoint_state_def)
  have b: "disjoint_state (Some st)" if "scan_dir names file streams = Some (st, d)" for st d
    using a[OF reachable.scanned[OF assms(1) assms(2) that]] .
  have c: "set (done_list d) \<inter> set (files d) = {}"
    if s: "scan_dir names file streams = Some (st, d)" for st d
  proof -
    from s have ne: "filter is_video names \<noteq> []"
      by (auto simp: scan_dir_def split: if_splits)
    from reachable_inv[OF assms(1)] show ?thesis
    proof
      assume "file = None"
      with s show ?thesis by (auto simp: scan_dir_absent[OF ne])
    next
      assume "\<exists>fin pen. file = Some \<lparr>finished = Some fin, pending = Some pen\<rparr>
                \<and> distinct pen \<and> set fin \<inter> set pen = {}"
      then obtain fin pen where "file = Some \<lparr>finished = Some fin, pending = Some pen\<rparr>"
        and "set fin \<inter> set pen = {}" by blast
      with s show ?thesis by (auto simp: scan_dir_existing[OF ne] split: if_splits)
    qed
  qed
  have d: "\<exists>st. mark_done file f = Inr st"
    using reachable_inv[OF assms(1)] by (auto simp: mark_done_absent mark_done_present)
  then obtain st where st: "mark_done file f = Inr st" by blast
  have e: "disjoint_state (Some st)"
    using a[OF reachable.marked[OF assms(1) st]] .
  show ?thesis
    using a[OF assms(1)] b c st e by (auto split: option.splits)
qed

theorem finished_pending_disjoint_witness:
  "reachable (Some \<lparr>finished = Some [''a.mkv''], pending = Some [''b.mkv'']\<rparr>)
   \<and> distinct [''a.mkv'', ''b.mkv'', ''c.mkv'']
   \<and> disjoint_state (Some \<lparr>finished = Some [''a.mkv''], pending = Some [''b.mkv'']\<rparr>)
   \<and> mark_done (Some \<lparr>finished = Some [''a.mkv''], pending = Some [''b.mkv'']\<rparr>) ''b.mkv''
       = Inr \<lparr>finished = Some [''a.mkv'', ''b.mkv''], pending = Some []\<rparr>
   \<and> disjoint_state (Some \<lparr>finished = Some [''a.mkv'', ''b.mkv''], pending = Some []\<rparr>)"
proof -
  have s: "scan_dir [''a.mkv'', ''b.mkv''] None ([], []) =
     Some (\<lparr>finished = Some [], pending = Some [''a.mkv'', ''b.mkv'']\<rparr>,
           \<lparr>files = [''a.mkv'', ''b.mkv''], done_list = [], subs = [], audios = [],
            selected_sub = auto_select [], selected_audio = auto_select [],
            video_count = 2\<rparr>)"
    by (simp add: scan_dir_absent is_video_abc)
  have r1: "reachable (Some \<lparr>finished = Some [], pending = Some [''a.mkv'', ''b.mkv'']\<rparr>)"
    by (rule reachable.scanned[OF reachable.fresh _ s]) simp
  have r2: "reachable (Some \<lparr>finished = Some [''a.mkv''], pending = Some [''b.mkv'']\<rparr>)"
    by (rule reachable.marked[OF r1, of "''a.mkv''"]) (simp add: mark_done_present)
  have d: "distinct [''a.mkv'', ''b.mkv'', ''c.mkv'']" by simp
  show ?thesis
    using r2 d finished_pending_disjoint[OF r2 d, of "([], [])" "''b.mkv''"]
    by (simp add: mark_done_present)
qed

subsection \<open>Encoder choice\<close>

text \<open>
  Claim C6: for each codec family the choice is the NVENC encoder if available, else
  QSV, else AMF, else the software encoder, and it depends on the set of available
  encoders only; from \<open>{hevc_qsv, hevc_amf}\<close> the HEVC choice is \<^verbatim>\<open>hevc_qsv\<close>,
  and from no encoder at all the three choices are the software encoders
  \<^verbatim>\<open>libxav1\<close>, \<^verbatim>\<open>libx265\<close>, \<^verbatim>\<open>libx264\<close>.
\<close>

theorem pick_best_encoder_order:
  "pick_best_encoder (EncList xs) =
     (prefer_order (set xs) ''av1_nvenc'' ''av1_qsv'' ''av1_amf'' ''libxav1'',
      prefer_order (set xs) ''hevc_nvenc'' ''hevc_qsv'' ''hevc_amf'' ''libx265'',
      prefer_order (set xs) ''h264_nvenc'' ''h264_qsv'' ''h264_amf'' ''libx264'')
   \<and> fst (snd (pick_best_encoder (EncList [''hevc_qsv'', ''hevc_amf'']))) = ''hevc_qsv''
   \<and> fst (snd (pick_best_encoder (EncList [''hevc_amf'', ''hevc_qsv'']))) = ''hevc_qsv''
   \<and> pick_best_encoder (EncList []) = (''libxav1'', ''libx265'', ''libx264'')"
  by (simp add: pick_best_encoder_def prefer_order_def)

subsection \<open>The run loop\<close>

lemma log_fields [simp]:
  "state_files (log m w) = state_files w" "disk (log m w) = disk w"
  "burn_cmds (log m w) = burn_cmds w" "mark_calls (log m w) = mark_calls w"
  "folder_events (log m w) = folder_events w" "global_events (log m w) = global_events w"
  "completed_tasks (log m w) = completed_tasks w" "boxes (log m w) = boxes w"
  by (simp_all add: log_def)

lemma remove_if_exists_fields [simp]:
  "state_files (remove_if_exists p w) = state_files w"
  "disk (remove_if_exists p w) = disk w - {p}"
  "burn_cmds (remove_if_exists p w) = burn_cmds w"
  "mark_calls (remove_if_exists p w) = mark_calls w"
  "folder_events (remove_if_exists p w) = folder_events w"
  "global_events (remove_if_exists p w) = global_events w"
  "completed_tasks (remove_if_exists p w) = completed_tasks w"
  by (auto simp: remove_if_exists_def)

lemma extract_step_fields:
  "extract_step env f i sf si vf w = (si', vf', w') \<Longrightarrow>
     burn_cmds w' = burn_cmds w \<and> mark_calls w' = mark_calls w
     \<and> folder_events w' = folder_events w \<and> global_events w' = global_events w
     \<and> completed_tasks w' = completed_tasks w \<and> state_files w' = state_files w"
  by (auto simp: extract_step_def Let_def split: if_splits proc.splits)

lemma burn_step_fields:
  "folder_events (burn_step env folder f sf si cmd w) = folder_events w"
  "global_events (burn_step env folder f sf si cmd w) = global_events w"
  "completed_tasks (burn_step env folder f sf si cmd w) = completed_tasks w"
  "burn_cmds (burn_step env folder f sf si cmd w) = burn_cmds w @ [cmd]"
  by (auto simp: burn_step_def Let_def split: proc.splits sum.splits)


lemma extract_step_result:
  "extract_step env f i sf si vf w = (si', vf', w') \<Longrightarrow>
     vf' = (if given si \<and> \<not> raised (fe_extract env (extract_command i (the si) sf)) then vf else [])
     \<and> si' = (if given si \<and> raised (fe_extract env (extract_command i (the si) sf)) then None else si)"
  by (auto simp: extract_step_def Let_def raised_def split: if_splits proc.splits)

lemma process_file_unfold:
  assumes "extract_step env f (path_join folder f) (path_join folder (fe_subname env))
             (split_idx (selected_sub data))
             (if probed_10bit env then ''subtitles='' @ fe_subname env
              else ''format=yuv420p,subtitles='' @ fe_subname env)
             (log ((if probed_10bit env then ''Detected 10-bit input for: ''
                    else ''Detected 8-bit input for: '') @ f) w) = (si', vf', w')"
  shows "process_file b5 b4 folder data f env w =
           burn_step env folder f (path_join folder (fe_subname env)) si'
             (burn_command (path_join folder f) (split_idx (selected_audio data)) vf'
                (if probed_10bit env then b5 else b4)
                (path_join (folder @ ''-burned'') (splitext_stem f @ ''-burned.mp4''))) w'"
  using assms by (cases "probed_10bit env") (simp_all add: process_file_def Let_def)

lemma process_file_burn_cmds:
  "burn_cmds (process_file b5 b4 folder data f env w)
     = burn_cmds w @ [expected_burn_cmd b5 b4 folder data f env]"
proof -
  obtain si' vf' w' where
    e: "extract_step env f (path_join folder f) (path_join folder (fe_subname env))
             (split_idx (selected_sub data))
             (if probed_10bit env then ''subtitles='' @ fe_subname env
              else ''format=yuv420p,subtitles='' @ fe_subname env)
             (log ((if probed_10bit env then ''Detected 10-bit input for: ''
                    else ''Detected 8-bit input for: '') @ f) w) = (si', vf', w')"
    by (metis prod_cases3)
  from extract_step_fields[OF e] have c: "burn_cmds w' = burn_cmds w" by simp
  from extract_step_result[OF e]
  have v: "vf' = (if burns_subtitles folder data f env then
                    (if probed_10bit env then ''subtitles='' @ fe_subname env
                     else ''format=yuv420p,subtitles='' @ fe_subname env)
                  else [])"
    by (auto simp: burns_subtitles_def extraction_raises_def)
  show ?thesis
    unfolding process_file_unfold[OF e] expected_burn_cmd_def
    by (simp add: burn_step_fields c v)
qed


lemma burn_step_exited:
  "fe_burn env cmd = Exited rc out \<Longrightarrow>
     mark_calls (burn_step env folder f sf si cmd w) = mark_calls w @ [(folder, f)]
     \<and> state_files (burn_step env folder f sf si cmd w) folder =
         (case mark_done (state_files w folder) f of Inr s \<Rightarrow> Some s | Inl e \<Rightarrow> state_files w folder)"
  by (auto simp: burn_step_def Let_def split: proc.splits sum.splits)

lemma burn_step_raised:
  "fe_burn env cmd = Raised e \<Longrightarrow>
     burn_step env folder f sf si cmd w =
       log (''Error burning '' @ f @ '': '' @ e) (w\<lparr>burn_cmds := burn_cmds w @ [cmd]\<rparr>)"
  by (simp add: burn_step_def Let_def)








lemma global_percent_full: "global_percent n n = 100"
  by (simp add: global_percent_def)


lemma process_file_exited:
  "mark_calls (process_file b5 b4 folder data f (env\<lparr>fe_burn := \<lambda>cmd. Exited rc out\<rparr>) w)
     = mark_calls w @ [(folder, f)]
   \<and> state_files (process_file b5 b4 folder data f (env\<lparr>fe_burn := \<lambda>cmd. Exited rc out\<rparr>) w) folder
     = (case mark_done (state_files w folder) f of Inr s \<Rightarrow> Some s | Inl e \<Rightarrow> state_files w folder)"
proof -
  let ?env = "env\<lparr>fe_burn := \<lambda>cmd. Exited rc out\<rparr>"
  obtain si' vf' w' where
    e: "extract_step ?env f (path_join folder f) (path_join folder (fe_subname ?env))
             (split_idx (selected_sub data))
             (if probed_10bit ?env then ''subtitles='' @ fe_subname ?env
              else ''format=yuv420p,subtitles='' @ fe_subname ?env)
             (log ((if probed_10bit ?env then ''Detected 10-bit input for: ''
                    else ''Detected 8-bit input for: '') @ f) w) = (si', vf', w')"
    by (metis prod_cases3)
  from extract_step_fields[OF e]
  have c: "mark_calls w' = mark_calls w" "state_files w' = state_files w" by simp_all
  have b: "fe_burn ?env cmd = Exited rc out" for cmd by simp
  show ?thesis
    unfolding process_file_unfold[OF e] using burn_step_exited[OF b] c
    by (simp split: sum.splits)
qed

lemma process_file_raised:
  "mark_calls (process_file b5 b4 folder data f (env\<lparr>fe_burn := \<lambda>cmd. Raised e\<rparr>) w) = mark_calls w
   \<and> state_files (process_file b5 b4 folder data f (env\<lparr>fe_burn := \<lambda>cmd. Raised e\<rparr>) w)
       = state_files w"
proof -
  let ?env = "env\<lparr>fe_burn := \<lambda>cmd. Raised e\<rparr>"
  obtain si' vf' w' where
    e: "extract_step ?env f (path_join folder f) (path_join folder (fe_subname ?env))
             (split_idx (selected_sub data))
             (if probed_10bit ?env then ''subtitles='' @ fe_subname ?env
              else ''format=yuv420p,subtitles='' @ fe_subname ?env)
             (log ((if probed_10bit ?env then ''Detected 10-bit input for: ''
                    else ''Detected 8-bit input for: '') @ f) w) = (si', vf', w')"
    by (metis prod_cases3)
  from extract_step_fields[OF e]
  have c: "mark_calls w' = mark_calls w" "state_files w' = state_files w" by simp_all
  have b: "fe_burn ?env cmd = Raised e" for cmd by simp
  show ?thesis
    unfolding process_file_unfold[OF e] using c by (simp add: burn_step_raised[OF b])
qed

text \<open>
  Claim C1, evaluated on the code: the burn command exits with code 1.
  \<^verbatim>\<open>subprocess.run\<close> is called without \<^verbatim>\<open>check=True\<close>, so it returns, and
  \<^verbatim>\<open>mark_done\<close> is called for the file: a state file with the file pending has it
  finished afterwards. Only when \<^verbatim>\<open>subprocess.run\<close> itself raises is
  \<^verbatim>\<open>mark_done\<close> not called.
\<close>

theorem nonzero_exit_still_marks_done:
  "mark_calls (process_file b5 b4 folder data f (env\<lparr>fe_burn := \<lambda>cmd. Exited 1 out\<rparr>) w)
     = mark_calls w @ [(folder, f)]
   \<and> state_files
       (process_file b5 b4 folder data f (env\<lparr>fe_burn := \<lambda>cmd. Exited 1 out\<rparr>)
          (w\<lparr>state_files := (state_files w)
                (folder := Some \<lparr>finished = Some [], pending = Some [f]\<rparr>)\<rparr>)) folder
     = Some \<lparr>finished = Some [f], pending = Some []\<rparr>
   \<and> mark_calls (process_file b5 b4 folder data f (env\<lparr>fe_burn := \<lambda>cmd. Raised e\<rparr>) w)
     = mark_calls w"
  by (simp add: process_file_exited process_file_raised mark_done_present)

text \<open>
  Claim C7 as stated fails: the 8-bit path does not force the pixel format for every
  file: with no subtitle track
  selected the burn command of an 8-bit file has no \<^verbatim>\<open>-vf\<close> argument at all.
\<close>

theorem no_filter_without_subtitle:
  "\<not> probed_10bit \<lparr>fe_subname = ''subs0.5.ass'', fe_probe = Some ''yuv420p'',
                     fe_extract = (\<lambda>cmd. Exited 0 []), fe_sidecar = True,
                     fe_burn = (\<lambda>cmd. Exited 0 [])\<rparr>
   \<and> burn_cmds (process_file ''libx265'' ''libx264'' ''/v''
        \<lparr>files = [''a.mkv''], done_list = [], subs = [], audios = [],
         selected_sub = [], selected_audio = [], video_count = 1\<rparr>
        ''a.mkv''
        \<lparr>fe_subname = ''subs0.5.ass'', fe_probe = Some ''yuv420p'',
         fe_extract = (\<lambda>cmd. Exited 0 []), fe_sidecar = True,
         fe_burn = (\<lambda>cmd. Exited 0 [])\<rparr>
        empty_world)
     = [[''ffmpeg'', ''-y'', ''-hwaccel'', ''auto'', ''-i'', ''/v/a.mkv'', ''-map'', ''0:v:0'',
         ''-map'', ''0:a?'', ''-c:v'', ''libx264'', ''-c:a'', ''copy'',
         ''/v-burned/a-burned.mp4'']]"
  by (simp add: process_file_burn_cmds expected_burn_cmd_def burn_command_def
        burns_subtitles_def extraction_raises_def given_def split_idx_def probed_10bit_def
        is_10bit_def contains_10_strip path_join_def splitext_stem_def empty_world_def)

text \<open>
  Claim C7, amended: a file probed as 10-bit is encoded with the HEVC choice and a file
  probed as 8-bit with the H264 choice; when a subtitle index is given and the
  extraction did not raise, the filter chain is the subtitle filter alone for 10-bit and
  \<^verbatim>\<open>format=yuv420p\<close> followed by the subtitle filter for 8-bit; otherwise the
  command has no filter chain.
\<close>

theorem bit_depth_routing:
  "burn_cmds (process_file best265 best264 folder data f env w)
     = burn_cmds w
       @ [burn_command (path_join folder f) (split_idx (selected_audio data))
            (if burns_subtitles folder data f env then
               (if probed_10bit env then ''subtitles='' @ fe_subname env
                else ''format=yuv420p,subtitles='' @ fe_subname env)
             else [])
            (if probed_10bit env then best265 else best264)
            (path_join (folder @ ''-burned'') (splitext_stem f @ ''-burned.mp4''))]"
  by (simp add: process_file_burn_cmds expected_burn_cmd_def)

theorem bit_depth_routing_witness:
  "burn_cmds (process_file ''libx265'' ''libx264'' ''/v''
        \<lparr>files = [''a.mkv''], done_list = [], subs = [''ass (jpn):2''], audios = [],
         selected_sub = ''ass (jpn):2'', selected_audio = [], video_count = 1\<rparr>
        ''a.mkv''
        \<lparr>fe_subname = ''subs0.5.ass'', fe_probe = Some ''yuv420p10le'',
         fe_extract = (\<lambda>cmd. Exited 0 []), fe_sidecar = True,
         fe_burn = (\<lambda>cmd. Exited 0 [])\<rparr>
        empty_world)
     = [[''ffmpeg'', ''-y'', ''-hwaccel'', ''auto'', ''-i'', ''/v/a.mkv'', ''-map'', ''0:v:0'',
         ''-map'', ''0:a?'', ''-vf'', ''subtitles=subs0.5.ass'', ''-c:v'', ''libx265'',
         ''-c:a'', ''copy'', ''/v-burned/a-burned.mp4'']]"
  using bit_depth_routing[of "''libx265''" "''libx264''" "''/v''"
        "\<lparr>files = [''a.mkv''], done_list = [], subs = [''ass (jpn):2''], audios = [],
         selected_sub = ''ass (jpn):2'', selected_audio = [], video_count = 1\<rparr>"
        "''a.mkv''"
        "\<lparr>fe_subname = ''subs0.5.ass'', fe_probe = Some ''yuv420p10le'',
         fe_extract = (\<lambda>cmd. Exited 0 []), fe_sidecar = True,
         fe_burn = (\<lambda>cmd. Exited 0 [])\<rparr>" empty_world]
  by (simp add: burn_command_def
        burns_subtitles_def extraction_raises_def raised_def given_def split_idx_def
        probed_10bit_def is_10bit_def contains_10_strip path_join_def splitext_stem_def
        empty_world_def)






end
